theory Spec2Isabelle
  imports Complex_Main "HOL-Library.Log_Nat"
begin

section \<open>Patch-based glyph model: input pipeline and augmentation\<close>

text \<open>
  A shallow embedding of \<^verbatim>\<open>moonlight/models/base/glyph_patches.py\<close>.
  Python names that start with an underscore lose it (\<^verbatim>\<open>_shift_left\<close> is
  \<open>shift_left\<close>). A float32 value and a Python float (a double) are read as the
  \<open>real\<close> they stand for, without NaN; the arithmetic on pixels, weights and angles is
  the ideal one. Where the program hands a Python float to a comparison with a float32
  tensor, the framework first converts it to float32, and that rounding decides the
  branch taken: it is written out as \<open>to_float32\<close>. An int64 value and a Python
  integer are an \<open>int\<close>.
\<close>

subsection \<open>Patches as tensors of rank two\<close>

text \<open>
  A patch of shape \<open>(H, W)\<close> is a list of \<open>H\<close> rows, each a list of \<open>W\<close> pixels.
\<close>

type_synonym patch = "real list list"

definition has_shape :: "'a list list \<Rightarrow> nat \<Rightarrow> nat \<Rightarrow> bool" where
  "has_shape patch h w = (length patch = h \<and> list_all (\<lambda>row. length row = w) patch)"

text \<open>
  A bound of a slice, as Python and TensorFlow normalise it for a dimension of size
  \<open>n\<close>: a negative bound counts from the end, and the result is clipped to \<open>0..n\<close>.
\<close>

definition slice_bound :: "nat \<Rightarrow> int \<Rightarrow> nat" where
  "slice_bound n i = (if i < 0 then nat (max 0 (int n + i)) else min n (nat i))"

text \<open>\<^verbatim>\<open>patch[:, i:]\<close> and \<^verbatim>\<open>patch[:, :i]\<close>.\<close>

definition cols_from :: "int \<Rightarrow> 'a list list \<Rightarrow> 'a list list" where
  "cols_from i patch = map (\<lambda>row. drop (slice_bound (length row) i) row) patch"

definition cols_upto :: "int \<Rightarrow> 'a list list \<Rightarrow> 'a list list" where
  "cols_upto i patch = map (\<lambda>row. take (slice_bound (length row) i) row) patch"

text \<open>\<^verbatim>\<open>tf.concat([a, b], axis=1)\<close> of two tensors with the same number of rows.\<close>

definition concat_axis1 :: "'a list list \<Rightarrow> 'a list list \<Rightarrow> 'a list list" where
  "concat_axis1 a b = map2 (@) a b"

text \<open>
  \<^verbatim>\<open>def _shift_left(patch): return tf.concat([patch[:, 1:], patch[:, -1:]], axis=1)\<close>
\<close>

definition shift_left :: "'a list list \<Rightarrow> 'a list list" where
  "shift_left patch = concat_axis1 (cols_from 1 patch) (cols_from (- 1) patch)"

text \<open>
  \<^verbatim>\<open>def _shift_right(patch): return tf.concat([patch[:, :1], patch[:, :-1]], axis=1)\<close>
\<close>

definition shift_right :: "'a list list \<Rightarrow> 'a list list" where
  "shift_right patch = concat_axis1 (cols_upto 1 patch) (cols_upto (- 1) patch)"

subsection \<open>Flags and the random source\<close>

text \<open>The values of the command line flags, with both globs given.\<close>

record flags =
  train_input_patches :: string
  eval_input_patches :: string
  model_dir :: string
  use_included_label_weight :: bool
  augmentation_x_shift_probability :: real
  augmentation_max_rotation_degrees :: real
  eval_throttle_secs :: int
  train_max_steps :: int

text \<open>
  The process-wide random generator: an infinite sequence of unit draws, each in
  \<open>[0, 1)\<close>, and the number of draws made so far. \<^verbatim>\<open>tf.random_uniform((), minval,
  maxval)\<close> takes the next unit draw \<open>u\<close> and returns \<open>u * (maxval - minval) + minval\<close>;
  the defaults are \<open>minval = 0\<close> and \<open>maxval = 1\<close>.
\<close>

record rng =
  source :: "nat \<Rightarrow> real"
  draws_made :: nat

definition random_uniform :: "real \<Rightarrow> real \<Rightarrow> rng \<Rightarrow> real \<times> rng" where
  "random_uniform minval maxval g =
     (source g (draws_made g) * (maxval - minval) + minval,
      g\<lparr>draws_made := draws_made g + 1\<rparr>)"

text \<open>
  The conversion of a Python float to float32, as \<^verbatim>\<open>ops.convert_to_tensor\<close> does it
  for the right operand of \<^verbatim>\<open>rand < ...\<close>: rounding to the nearest number with a
  significand of 24 bits, a tie going to the even significand. \<open>float32_exponent x\<close>
  is the \<open>e\<close> with \<open>2 ^ e \<le> \<bar>x\<bar> < 2 ^ (e + 1)\<close>, and at least \<open>-126\<close>, below which
  the spacing of float32 stays that of the subnormal numbers. Beyond the largest
  float32 the conversion gives an infinity; the model keeps the rounded real, which
  compares in the same way with every finite float32.
\<close>

definition float32_exponent :: "real \<Rightarrow> int" where
  "float32_exponent x =
     max (- 126)
       (if 1 \<le> \<bar>x\<bar> then bitlen \<lfloor>\<bar>x\<bar>\<rfloor> - 1 else - bitlen (\<lceil>1 / \<bar>x\<bar>\<rceil> - 1))"

definition round_half_even :: "real \<Rightarrow> int" where
  "round_half_even q =
     (let f = \<lfloor>q\<rfloor>; d = q - of_int f
      in if d < 1 / 2 then f else if 1 / 2 < d then f + 1
         else if even f then f else f + 1)"

definition to_float32 :: "real \<Rightarrow> real" where
  "to_float32 x =
     (let ulp = 2 powi (float32_exponent x - 23)
      in of_int (round_half_even (x / ulp)) * ulp)"

text \<open>\<^verbatim>\<open>tf.cond(pred, true_fn, false_fn)\<close> runs one of the two functions.\<close>

definition tf_cond :: "bool \<Rightarrow> (unit \<Rightarrow> 'a) \<Rightarrow> (unit \<Rightarrow> 'a) \<Rightarrow> 'a" where
  "tf_cond pred true_fn false_fn = (if pred then true_fn () else false_fn ())"

text \<open>
  \<^verbatim>\<open>
  def _augment_shift(patch):
    rand = tf.random_uniform(())
    shift_prob = min(1., FLAGS.augmentation_x_shift_probability)
    return tf.cond(rand < shift_prob / 2,
                   shift_left,
                   lambda: tf.cond(rand < shift_prob, shift_right, identity))
  \<close>
  Python's \<^verbatim>\<open>min(1., x)\<close> is \<open>x\<close> when \<open>x < 1\<close> and \<open>1\<close> otherwise. \<^verbatim>\<open>rand\<close> is a
  float32 tensor; \<^verbatim>\<open>shift_prob / 2\<close> and \<^verbatim>\<open>shift_prob\<close> are Python floats, converted
  to float32 by the comparison.
\<close>

definition augment_shift :: "flags \<Rightarrow> patch \<Rightarrow> rng \<Rightarrow> patch \<times> rng" where
  "augment_shift FLAGS patch g =
     (let (rand, g') = random_uniform 0 1 g;
          shift_prob = min 1 (augmentation_x_shift_probability FLAGS)
      in (tf_cond (rand < to_float32 (shift_prob / 2))
            (\<lambda>_. shift_left patch)
            (\<lambda>_. tf_cond (rand < to_float32 shift_prob)
                   (\<lambda>_. shift_right patch) (\<lambda>_. patch)),
          g'))"

text \<open>
  \<^verbatim>\<open>math.radians\<close>, and \<^verbatim>\<open>1. - patch\<close> on every pixel.
\<close>

definition radians :: "real \<Rightarrow> real" where
  "radians x = x * pi / 180"

definition one_minus :: "patch \<Rightarrow> patch" where
  "one_minus patch = map (map (\<lambda>v. 1 - v)) patch"

datatype interpolation = NEAREST | BILINEAR

text \<open>
  \<^verbatim>\<open>
  def _augment_rotation(patch):
    max_rotation_radians = math.radians(FLAGS.augmentation_max_rotation_degrees)
    rotation = tf.random_uniform(
        (), minval=-max_rotation_radians, maxval=max_rotation_radians)
    return 1. - tf.contrib.image.rotate(
        1. - patch, rotation, interpolation='BILINEAR')
  \<close>
  The rotation kernel \<^verbatim>\<open>tf.contrib.image.rotate\<close> belongs to the framework; it is
  the parameter \<open>tf_rotate\<close>.
\<close>

definition augment_rotation ::
  "(patch \<Rightarrow> real \<Rightarrow> interpolation \<Rightarrow> patch) \<Rightarrow> flags \<Rightarrow> patch \<Rightarrow> rng \<Rightarrow> patch \<times> rng" where
  "augment_rotation tf_rotate FLAGS patch g =
     (let max_rotation_radians = radians (augmentation_max_rotation_degrees FLAGS);
          (rotation, g') = random_uniform (- max_rotation_radians) max_rotation_radians g
      in (one_minus (tf_rotate (one_minus patch) rotation BILINEAR), g'))"

text \<open>
  \<^verbatim>\<open>def _augment(patch): return _augment_rotation(_augment_shift(patch))\<close>
  The argument is evaluated first, so the shift draws before the rotation does.
\<close>

definition augment ::
  "(patch \<Rightarrow> real \<Rightarrow> interpolation \<Rightarrow> patch) \<Rightarrow> flags \<Rightarrow> patch \<Rightarrow> rng \<Rightarrow> patch \<times> rng" where
  "augment tf_rotate FLAGS patch g =
     (let (shifted, g1) = augment_shift FLAGS patch g
      in augment_rotation tf_rotate FLAGS shifted g1)"

subsection \<open>Serialized examples and record files\<close>

datatype error =
  IndexError | TypeError | KeyError | ValueError | DecodeError | DataLossError
  | InvalidArgumentError

text \<open>
  A \<^verbatim>\<open>tf.train.Example\<close> is a map from feature names to features; a feature holds
  one of three kinds of list.
\<close>

datatype feature = Bytes_list "string list" | Float_list "real list" | Int64_list "int list"

type_synonym example = "string \<rightharpoonup> feature"

text \<open>
  The bytes of one record, by what they decode to: a serialized example, or bytes that
  are not one.
\<close>

datatype serialized = Malformed | Serialized example

text \<open>
  What the record reader yields for a file, in order: a record, or the point where the
  file is unreadable (truncated or with a bad checksum), at which the reader raises.
  An empty file is the empty list.
\<close>

datatype chunk = Record serialized | Corrupt

record filesystem =
  get_matching_files :: "string \<Rightarrow> string list"
  tf_record_file :: "string \<Rightarrow> chunk list"

text \<open>\<^verbatim>\<open>tf.train.Example.FromString(record)\<close>.\<close>

definition FromString :: "serialized \<Rightarrow> error + example" where
  "FromString record_bytes =
     (case record_bytes of Malformed \<Rightarrow> Inl DecodeError | Serialized ex \<Rightarrow> Inr ex)"

text \<open>
  \<^verbatim>\<open>example.features.feature[key].int64_list.value\<close>: reading a key that is absent, or
  a feature of another kind, gives the empty list and does not raise.
\<close>

definition int64_list_value :: "example \<Rightarrow> string \<Rightarrow> int list" where
  "int64_list_value ex key = (case ex key of Some (Int64_list vs) \<Rightarrow> vs | _ \<Rightarrow> [])"

text \<open>\<^verbatim>\<open>int(value[0])\<close>: the first element, or IndexError on the empty list.\<close>

definition first_value :: "int list \<Rightarrow> error + int" where
  "first_value vs = (case vs of [] \<Rightarrow> Inl IndexError | v # _ \<Rightarrow> Inr v)"

subsection \<open>The patch dimension reader\<close>

text \<open>
  The body of the inner loop, for the first thing the reader yields:
  \<^verbatim>\<open>
      example = tf.train.Example.FromString(record)
      patch_height = int(example.features.feature['height'].int64_list.value[0])
      patch_width = int(example.features.feature['width'].int64_list.value[0])
      return patch_height, patch_width
  \<close>
  \<open>None\<close> says that the file yielded nothing and the body did not run.
\<close>

fun first_record_dimensions :: "chunk list \<Rightarrow> (error + int \<times> int) option" where
  "first_record_dimensions [] = None"
| "first_record_dimensions (Corrupt # _) = Some (Inl DataLossError)"
| "first_record_dimensions (Record record_bytes # _) =
     Some (case FromString record_bytes of
             Inl e \<Rightarrow> Inl e
           | Inr ex \<Rightarrow>
               (case first_value (int64_list_value ex ''height'') of
                  Inl e \<Rightarrow> Inl e
                | Inr patch_height \<Rightarrow>
                    (case first_value (int64_list_value ex ''width'') of
                       Inl e \<Rightarrow> Inl e
                     | Inr patch_width \<Rightarrow> Inr (patch_height, patch_width))))"

text \<open>
  The outer loop over the matching files. When it runs out of files the function ends
  without a \<^verbatim>\<open>return\<close> statement: the Python value \<^verbatim>\<open>None\<close>, here \<open>Inr None\<close>.
\<close>

fun scan_files :: "filesystem \<Rightarrow> string list \<Rightarrow> error + (int \<times> int) option" where
  "scan_files fs [] = Inr None"
| "scan_files fs (filename # rest) =
     (case first_record_dimensions (tf_record_file fs filename) of
        None \<Rightarrow> scan_files fs rest
      | Some (Inl e) \<Rightarrow> Inl e
      | Some (Inr dims) \<Rightarrow> Inr (Some dims))"

text \<open>
  \<^verbatim>\<open>
  def read_patch_dimensions():
    for filename in file_io.get_matching_files(FLAGS.train_input_patches):
      for record in tf_record.tf_record_iterator(filename):
        ...
  \<close>
  the function under the decorator.
\<close>

definition read_patch_dimensions_body ::
  "filesystem \<Rightarrow> flags \<Rightarrow> error + (int \<times> int) option" where
  "read_patch_dimensions_body fs FLAGS =
     scan_files fs (get_matching_files fs (train_input_patches FLAGS))"

text \<open>
  The state of the process that the reader touches: the cache of the decorator (\<open>None\<close>
  while nothing is stored, \<open>Some v\<close> once the value \<open>v\<close> is), and a count of the scans
  of the file system made by the reader.
\<close>

record process =
  dimension_cache :: "(int \<times> int) option option"
  dimension_scans :: nat

text \<open>
  Modelled from the spec: the decorator \<^verbatim>\<open>memoize.MemoizedFunction\<close> of
  \<^verbatim>\<open>moonlight/util/memoize.py\<close>, which is not among the sources. The specification
  says that the result is cached process-wide, that later calls are served from the
  cache without scanning the file system again, and that the cache has no eviction. A
  call that raises returns no result, so it stores nothing.
\<close>

definition read_patch_dimensions ::
  "filesystem \<Rightarrow> flags \<Rightarrow> process \<Rightarrow> (error + (int \<times> int) option) \<times> process" where
  "read_patch_dimensions fs FLAGS st =
     (case dimension_cache st of
        Some v \<Rightarrow> (Inr v, st)
      | None \<Rightarrow>
          (let st1 = st\<lparr>dimension_scans := dimension_scans st + 1\<rparr>
           in case read_patch_dimensions_body fs FLAGS of
                Inl e \<Rightarrow> (Inl e, st1)
              | Inr v \<Rightarrow> (Inr v, st1\<lparr>dimension_cache := Some v\<rparr>)))"

text \<open>
  The scan as the specification words it, for comparison with \<open>scan_files\<close>: a file
  that is empty or cannot be read is passed over, and within a file the first record
  that parses and carries both features, each with a value, gives the dimensions.
\<close>

fun claimed_record_dimensions :: "chunk list \<Rightarrow> (int \<times> int) option" where
  "claimed_record_dimensions [] = None"
| "claimed_record_dimensions (Corrupt # _) = None"
| "claimed_record_dimensions (Record Malformed # rest) = claimed_record_dimensions rest"
| "claimed_record_dimensions (Record (Serialized ex) # rest) =
     (case (int64_list_value ex ''height'', int64_list_value ex ''width'') of
        (h # _, w # _) \<Rightarrow> Some (h, w)
      | _ \<Rightarrow> claimed_record_dimensions rest)"

fun claimed_scan :: "filesystem \<Rightarrow> string list \<Rightarrow> (int \<times> int) option" where
  "claimed_scan fs [] = None"
| "claimed_scan fs (filename # rest) =
     (case claimed_record_dimensions (tf_record_file fs filename) of
        None \<Rightarrow> claimed_scan fs rest
      | Some dims \<Rightarrow> Some dims)"

subsection \<open>Parsing an example\<close>

datatype dtype = Float32 | Int64

text \<open>\<^verbatim>\<open>tf.FixedLenFeature(shape, dtype)\<close>, without a default value.\<close>

datatype fixed_len_feature = FixedLenFeature "int list" dtype

datatype tensor = Float_matrix patch | Float_scalar real | Int_scalar int

text \<open>Row-major reshaping of \<open>h * w\<close> values into \<open>h\<close> rows of \<open>w\<close>.\<close>

definition reshape2 :: "nat \<Rightarrow> nat \<Rightarrow> 'a list \<Rightarrow> 'a list list" where
  "reshape2 h w vs = map (\<lambda>i. take w (drop (i * w) vs)) [0..<h]"

text \<open>
  One fixed-length feature of the framework's example parser: the feature must be
  there, of the right kind, with as many values as the shape has elements. The shapes
  are the ones this program asks for: a scalar and a matrix.
\<close>

fun parse_fixed_len :: "fixed_len_feature \<Rightarrow> feature option \<Rightarrow> error + tensor" where
  "parse_fixed_len (FixedLenFeature [] Int64) (Some (Int64_list vs)) =
     (case vs of [v] \<Rightarrow> Inr (Int_scalar v) | _ \<Rightarrow> Inl InvalidArgumentError)"
| "parse_fixed_len (FixedLenFeature [] Float32) (Some (Float_list vs)) =
     (case vs of [v] \<Rightarrow> Inr (Float_scalar v) | _ \<Rightarrow> Inl InvalidArgumentError)"
| "parse_fixed_len (FixedLenFeature [h, w] Float32) (Some (Float_list vs)) =
     (if 0 \<le> h \<and> 0 \<le> w \<and> int (length vs) = h * w
      then Inr (Float_matrix (reshape2 (nat h) (nat w) vs))
      else Inl InvalidArgumentError)"
| "parse_fixed_len _ _ = Inl InvalidArgumentError"

fun parse_features ::
  "example \<Rightarrow> (string \<times> fixed_len_feature) list \<Rightarrow> error + (string \<rightharpoonup> tensor)" where
  "parse_features ex [] = Inr Map.empty"
| "parse_features ex ((key, ty) # rest) =
     (case parse_fixed_len ty (ex key) of
        Inl e \<Rightarrow> Inl e
      | Inr t \<Rightarrow>
          (case parse_features ex rest of
             Inl e \<Rightarrow> Inl e
           | Inr m \<Rightarrow> Inr (m(key \<mapsto> t))))"

text \<open>\<^verbatim>\<open>tf.parse_single_example(record, feature_types)\<close>.\<close>

definition parse_single_example ::
  "serialized \<Rightarrow> (string \<times> fixed_len_feature) list \<Rightarrow> error + (string \<rightharpoonup> tensor)" where
  "parse_single_example record_bytes feature_types =
     (case record_bytes of
        Malformed \<Rightarrow> Inl InvalidArgumentError
      | Serialized ex \<Rightarrow> parse_features ex feature_types)"

subsection \<open>The example parser and the input function\<close>

text \<open>
  \<^verbatim>\<open>
    feature_types = {
        'patch': tf.FixedLenFeature((patch_height, patch_width), tf.float32),
        'label': tf.FixedLenFeature((), tf.int64),
    }
    if FLAGS.use_included_label_weight:
      feature_types['label_weight'] = tf.FixedLenFeature((), tf.float32)
  \<close>
\<close>

definition feature_types :: "flags \<Rightarrow> int \<times> int \<Rightarrow> (string \<times> fixed_len_feature) list" where
  "feature_types FLAGS dims =
     [(''patch'', FixedLenFeature [fst dims, snd dims] Float32),
      (''label'', FixedLenFeature [] Int64)]
     @ (if use_included_label_weight FLAGS
        then [(''label_weight'', FixedLenFeature [] Float32)] else [])"

text \<open>
  \<^verbatim>\<open>
    features = tf.parse_single_example(record, feature_types)
    label = features['label']
    weight = label_weights.weights_from_labels(label)
    if FLAGS.use_included_label_weight:
      weight *= features['label_weight']
    patch = _augment(features['patch'])
    return {'patch': patch, WEIGHT_COLUMN_NAME: weight}, label
  \<close>
  \<^verbatim>\<open>label_weights.weights_from_labels\<close> is the parameter \<open>weights_from_labels\<close>, and
  \<^verbatim>\<open>WEIGHT_COLUMN_NAME\<close> is \<^verbatim>\<open>'weight'\<close>.
\<close>

definition parser ::
  "(int \<Rightarrow> real) \<Rightarrow> (patch \<Rightarrow> real \<Rightarrow> interpolation \<Rightarrow> patch) \<Rightarrow> flags \<Rightarrow> int \<times> int
     \<Rightarrow> serialized \<Rightarrow> rng \<Rightarrow> (error + (string \<rightharpoonup> tensor) \<times> int) \<times> rng" where
  "parser weights_from_labels tf_rotate FLAGS dims record_bytes g =
     (case parse_single_example record_bytes (feature_types FLAGS dims) of
        Inl e \<Rightarrow> (Inl e, g)
      | Inr features \<Rightarrow>
          (case features ''label'' of
             Some (Int_scalar label) \<Rightarrow>
               (case (if use_included_label_weight FLAGS
                      then (case features ''label_weight'' of
                              Some (Float_scalar label_weight) \<Rightarrow>
                                Inr (weights_from_labels label * label_weight)
                            | _ \<Rightarrow> Inl KeyError)
                      else Inr (weights_from_labels label)) of
                  Inl e \<Rightarrow> (Inl e, g)
                | Inr weight \<Rightarrow>
                    (case features ''patch'' of
                       Some (Float_matrix p) \<Rightarrow>
                         (let (augmented, g') = augment tf_rotate FLAGS p g
                          in (Inr ([''patch'' \<mapsto> Float_matrix augmented,
                                    ''weight'' \<mapsto> Float_scalar weight], label), g'))
                     | _ \<Rightarrow> (Inl KeyError, g)))
           | _ \<Rightarrow> (Inl KeyError, g)))"

text \<open>
  A dataset with a function mapped over it: the records it reads, and the function the
  framework applies to each record when the dataset is iterated.
\<close>

record mapped_dataset =
  dataset_records :: "chunk list"
  map_fn :: "serialized \<Rightarrow> rng \<Rightarrow> (error + (string \<rightharpoonup> tensor) \<times> int) \<times> rng"

text \<open>\<^verbatim>\<open>tf.data.TFRecordDataset(filenames)\<close> reads the files one after the other.\<close>

definition TFRecordDataset :: "filesystem \<Rightarrow> string list \<Rightarrow> chunk list" where
  "TFRecordDataset fs filenames = concat (map (tf_record_file fs) filenames)"

text \<open>
  \<^verbatim>\<open>
  def input_fn(input_patches):
    patch_height, patch_width = read_patch_dimensions()
    dataset = tf.data.TFRecordDataset(file_io.get_matching_files(input_patches))
    def parser(record): ...
    return batches.get_batched_tensor(dataset.map(parser))
  \<close>
  Unpacking \<^verbatim>\<open>None\<close> into two names raises TypeError. \<^verbatim>\<open>dataset.map(parser)\<close>
  traces \<^verbatim>\<open>parser\<close> at once, and building the feature of shape
  \<^verbatim>\<open>(patch_height, patch_width)\<close> raises ValueError when a dimension is negative.
  \<^verbatim>\<open>batches.get_batched_tensor\<close> is the parameter \<open>get_batched_tensor\<close>.
\<close>

definition input_fn ::
  "(int \<Rightarrow> real) \<Rightarrow> (patch \<Rightarrow> real \<Rightarrow> interpolation \<Rightarrow> patch) \<Rightarrow> (mapped_dataset \<Rightarrow> 'b)
     \<Rightarrow> filesystem \<Rightarrow> flags \<Rightarrow> string \<Rightarrow> process \<Rightarrow> (error + 'b) \<times> process" where
  "input_fn weights_from_labels tf_rotate get_batched_tensor fs FLAGS input_patches st =
     (case read_patch_dimensions fs FLAGS st of
        (Inl e, st1) \<Rightarrow> (Inl e, st1)
      | (Inr None, st1) \<Rightarrow> (Inl TypeError, st1)
      | (Inr (Some (patch_height, patch_width)), st1) \<Rightarrow>
          (let dataset = TFRecordDataset fs (get_matching_files fs input_patches)
           in if patch_height < 0 \<or> patch_width < 0 then (Inl ValueError, st1)
              else (Inr (get_batched_tensor
                           \<lparr>dataset_records = dataset,
                            map_fn = parser weights_from_labels tf_rotate FLAGS
                                       (patch_height, patch_width)\<rparr>),
                    st1)))"

text \<open>
  The two input functions that \<^verbatim>\<open>train_and_evaluate\<close> hands to the estimator:
  \<^verbatim>\<open>lambda: input_fn(FLAGS.train_input_patches)\<close> and
  \<^verbatim>\<open>lambda: input_fn(FLAGS.eval_input_patches)\<close>.
\<close>

definition train_spec_input_fn ::
  "(int \<Rightarrow> real) \<Rightarrow> (patch \<Rightarrow> real \<Rightarrow> interpolation \<Rightarrow> patch) \<Rightarrow> (mapped_dataset \<Rightarrow> 'b)
     \<Rightarrow> filesystem \<Rightarrow> flags \<Rightarrow> process \<Rightarrow> (error + 'b) \<times> process" where
  "train_spec_input_fn weights_from_labels tf_rotate get_batched_tensor fs FLAGS st =
     input_fn weights_from_labels tf_rotate get_batched_tensor fs FLAGS
       (train_input_patches FLAGS) st"

definition eval_spec_input_fn ::
  "(int \<Rightarrow> real) \<Rightarrow> (patch \<Rightarrow> real \<Rightarrow> interpolation \<Rightarrow> patch) \<Rightarrow> (mapped_dataset \<Rightarrow> 'b)
     \<Rightarrow> filesystem \<Rightarrow> flags \<Rightarrow> process \<Rightarrow> (error + 'b) \<times> process" where
  "eval_spec_input_fn weights_from_labels tf_rotate get_batched_tensor fs FLAGS st =
     input_fn weights_from_labels tf_rotate get_batched_tensor fs FLAGS
       (eval_input_patches FLAGS) st"

subsection \<open>The serving input receiver\<close>

text \<open>
  A request feeds one of the receiver's tensors: the string placeholder
  \<^verbatim>\<open>examples\<close> (the alternative \<^verbatim>\<open>'example'\<close>), or the tensor \<^verbatim>\<open>parsed['patch']\<close>
  itself (the default receiver tensor and the alternative \<^verbatim>\<open>'patch'\<close>).
\<close>

datatype serving_request = Feed_examples "serialized list" | Feed_patch "patch list"

text \<open>
  \<^verbatim>\<open>tf.parse_example(examples, {'patch': tf.FixedLenFeature((patch_height,
  patch_width), tf.float32)})['patch']\<close>: the batch of parsed patches.
\<close>

fun parse_example_patch :: "int \<times> int \<Rightarrow> serialized list \<Rightarrow> error + patch list" where
  "parse_example_patch dims [] = Inr []"
| "parse_example_patch dims (record_bytes # rest) =
     (case parse_single_example record_bytes
             [(''patch'', FixedLenFeature [fst dims, snd dims] Float32)] of
        Inl e \<Rightarrow> Inl e
      | Inr features \<Rightarrow>
          (case features ''patch'' of
             Some (Float_matrix p) \<Rightarrow>
               (case parse_example_patch dims rest of
                  Inl e \<Rightarrow> Inl e
                | Inr ps \<Rightarrow> Inr (p # ps))
           | _ \<Rightarrow> Inl KeyError))"

text \<open>
  The features the model receives for a request,
  \<^verbatim>\<open>features={'patch': parsed['patch']}\<close>. A tensor fed in place of \<^verbatim>\<open>parsed['patch']\<close>
  must have the static shape of that tensor.
\<close>

definition serving_features ::
  "int \<times> int \<Rightarrow> serving_request \<Rightarrow> error + (string \<rightharpoonup> patch list)" where
  "serving_features dims request =
     (case (case request of
              Feed_examples examples \<Rightarrow> parse_example_patch dims examples
            | Feed_patch fed \<Rightarrow>
                (if 0 \<le> fst dims \<and> 0 \<le> snd dims
                    \<and> list_all (\<lambda>p. has_shape p (nat (fst dims)) (nat (snd dims))) fed
                 then Inr fed else Inl InvalidArgumentError)) of
        Inl e \<Rightarrow> Inl e
      | Inr parsed_patch \<Rightarrow> Inr [''patch'' \<mapsto> parsed_patch])"

text \<open>
  \<^verbatim>\<open>
  def serving_fn():
    examples = tf.placeholder(tf.string, shape=[None])
    patch_height, patch_width = read_patch_dimensions()
    parsed = tf.parse_example(examples, {'patch': ...})
    return tf.estimator.export.ServingInputReceiver(
        features={'patch': parsed['patch']}, receiver_tensors=parsed['patch'],
        receiver_tensors_alternatives={'example': examples, 'patch': parsed['patch']})
  \<close>
  The receiver is the function from a request to the features. Building the feature
  of shape \<^verbatim>\<open>(patch_height, patch_width)\<close> raises ValueError when a dimension is
  negative.
\<close>

definition serving_fn ::
  "filesystem \<Rightarrow> flags \<Rightarrow> process
     \<Rightarrow> (error + (serving_request \<Rightarrow> error + (string \<rightharpoonup> patch list))) \<times> process" where
  "serving_fn fs FLAGS st =
     (case read_patch_dimensions fs FLAGS st of
        (Inl e, st1) \<Rightarrow> (Inl e, st1)
      | (Inr None, st1) \<Rightarrow> (Inl TypeError, st1)
      | (Inr (Some (patch_height, patch_width)), st1) \<Rightarrow>
          (if patch_height < 0 \<or> patch_width < 0 then (Inl ValueError, st1)
           else (Inr (serving_features (patch_height, patch_width)), st1)))"


subsection \<open>A small file system and flag values\<close>

text \<open>
  Concrete inputs, used where a statement is evaluated. The flags are the defaults of
  the program (shift probability \<open>0.5\<close>, at most \<open>2\<close> degrees of rotation) with the
  two globs set. In the file system \<^verbatim>\<open>train-0\<close> is an empty file, \<^verbatim>\<open>late\<close> holds
  a record without dimensions before one with them, and \<^verbatim>\<open>broken\<close> cannot be read.
\<close>

definition default_flags :: flags where
  "default_flags =
     \<lparr>train_input_patches = ''train*'', eval_input_patches = ''eval*'',
      model_dir = ''model'', use_included_label_weight = False,
      augmentation_x_shift_probability = 1 / 2, augmentation_max_rotation_degrees = 2,
      eval_throttle_secs = 60, train_max_steps = 100000\<rparr>"

definition labeled_patch :: "int \<Rightarrow> int \<Rightarrow> real list \<Rightarrow> int \<Rightarrow> real \<Rightarrow> example" where
  "labeled_patch h w vs label lw =
     [''height'' \<mapsto> Int64_list [h], ''width'' \<mapsto> Int64_list [w],
      ''patch'' \<mapsto> Float_list vs, ''label'' \<mapsto> Int64_list [label],
      ''label_weight'' \<mapsto> Float_list [lw]]"

definition small_fs :: filesystem where
  "small_fs =
     \<lparr>get_matching_files =
        (\<lambda>glob. if glob = ''train*'' then [''train-0'', ''train-1'']
                else if glob = ''eval*'' then [''eval-0'']
                else if glob = ''empty*'' then [''train-0'']
                else if glob = ''late*'' then [''late'']
                else if glob = ''mixed*'' then [''broken'', ''train-1'']
                else []),
      tf_record_file =
        (\<lambda>filename.
           if filename = ''train-1''
             then [Record (Serialized (labeled_patch 1 2 [0, 1] 3 (1 / 2)))]
           else if filename = ''eval-0''
             then [Record (Serialized (labeled_patch 2 1 [1, 0] 4 1))]
           else if filename = ''late''
             then [Record (Serialized [''label'' \<mapsto> Int64_list [3]]),
                   Record (Serialized (labeled_patch 1 2 [0, 1] 3 (1 / 2)))]
           else if filename = ''broken'' then [Corrupt]
           else [])\<rparr>"

definition fresh_process :: process where
  "fresh_process = \<lparr>dimension_cache = None, dimension_scans = 0\<rparr>"

definition constant_rng :: "real \<Rightarrow> rng" where
  "constant_rng u = \<lparr>source = (\<lambda>_. u), draws_made = 0\<rparr>"

lemmas small_defs = small_fs_def default_flags_def fresh_process_def constant_rng_def
  labeled_patch_def FromString_def first_value_def int64_list_value_def

section \<open>The one-pixel shifts\<close>

lemma slice_bound_one: "0 < n \<Longrightarrow> slice_bound n 1 = 1"
  by (simp add: slice_bound_def)

lemma slice_bound_minus_one: "0 < n \<Longrightarrow> slice_bound n (- 1) = n - 1"
  by (simp add: slice_bound_def)

lemma shift_left_rows:
  "shift_left patch = map (\<lambda>row. drop (slice_bound (length row) 1) row
       @ drop (slice_bound (length row) (- 1)) row) patch"
  by (induction patch) (simp_all add: shift_left_def concat_axis1_def cols_from_def)

lemma shift_right_rows:
  "shift_right patch = map (\<lambda>row. take (slice_bound (length row) 1) row
       @ take (slice_bound (length row) (- 1)) row) patch"
  by (induction patch) (simp_all add: shift_right_def concat_axis1_def cols_upto_def)

lemma has_shape_row: "has_shape patch h w \<Longrightarrow> i < h \<Longrightarrow> length (patch ! i) = w"
  by (simp add: has_shape_def list_all_length)

lemma has_shape_height: "has_shape patch h w \<Longrightarrow> length patch = h"
  by (simp add: has_shape_def)

lemma shift_left_row:
  assumes "has_shape patch h w" and "0 < w" and "i < h"
  shows "shift_left patch ! i = drop 1 (patch ! i) @ drop (w - 1) (patch ! i)"
  using assms has_shape_row [OF assms(1) assms(3)]
  by (simp add: shift_left_rows has_shape_height slice_bound_one slice_bound_minus_one)

lemma shift_right_row:
  assumes "has_shape patch h w" and "0 < w" and "i < h"
  shows "shift_right patch ! i = take 1 (patch ! i) @ take (w - 1) (patch ! i)"
  using assms has_shape_row [OF assms(1) assms(3)]
  by (simp add: shift_right_rows has_shape_height slice_bound_one slice_bound_minus_one)

lemma shift_left_shape:
  assumes "has_shape patch h w" and "0 < w"
  shows "has_shape (shift_left patch) h w"
proof -
  have "length (shift_left patch) = h"
    using assms(1) by (simp add: shift_left_rows has_shape_height)
  moreover have "length (shift_left patch ! i) = w" if "i < h" for i
    using shift_left_row [OF assms that] has_shape_row [OF assms(1) that] assms(2) by simp
  ultimately show ?thesis
    by (simp add: has_shape_def list_all_length)
qed

lemma shift_right_shape:
  assumes "has_shape patch h w" and "0 < w"
  shows "has_shape (shift_right patch) h w"
proof -
  have "length (shift_right patch) = h"
    using assms(1) by (simp add: shift_right_rows has_shape_height)
  moreover have "length (shift_right patch ! i) = w" if "i < h" for i
    using shift_right_row [OF assms that] has_shape_row [OF assms(1) that] assms(2) by simp
  ultimately show ?thesis
    by (simp add: has_shape_def list_all_length)
qed

lemma shift_left_pixel:
  assumes "has_shape patch h w" and "0 < w" and "i < h" and "j < w"
  shows "shift_left patch ! i ! j = patch ! i ! (if j < w - 1 then j + 1 else w - 1)"
proof -
  have len: "length (patch ! i) = w"
    by (rule has_shape_row [OF assms(1) assms(3)])
  show ?thesis
  proof (cases "j < w - 1")
    case True
    then show ?thesis
      using len by (simp add: shift_left_row [OF assms(1-3)] nth_append)
  next
    case False
    with assms(4) have "j = w - 1" by simp
    then show ?thesis
      using len assms(2) by (simp add: shift_left_row [OF assms(1-3)] nth_append)
  qed
qed

lemma shift_right_pixel:
  assumes "has_shape patch h w" and "0 < w" and "i < h" and "j < w"
  shows "shift_right patch ! i ! j = patch ! i ! (if j = 0 then 0 else j - 1)"
proof -
  have len: "length (patch ! i) = w"
    by (rule has_shape_row [OF assms(1) assms(3)])
  show ?thesis
  proof (cases j)
    case 0
    then show ?thesis
      using len assms(2) by (simp add: shift_right_row [OF assms(1-3)] nth_append)
  next
    case (Suc k)
    then show ?thesis
      using len assms(4) by (simp add: shift_right_row [OF assms(1-3)] nth_append)
  qed
qed

text \<open>
  C2. For a patch of shape \<open>(H, W)\<close> with \<open>W \<ge> 1\<close>, both one-pixel shifts keep the
  shape. Columns \<open>0..W-2\<close> of the left shift are columns \<open>1..W-1\<close> of the input and its
  column \<open>W-1\<close> is the input's column \<open>W-1\<close>; columns \<open>1..W-1\<close> of the right shift are
  columns \<open>0..W-2\<close> of the input and its column \<open>0\<close> is the input's column \<open>0\<close>.
\<close>

theorem shift_replicates_edge_column:
  assumes "has_shape patch h w" and "1 \<le> w"
  shows "has_shape (shift_left patch) h w
    \<and> (\<forall>i<h. \<forall>j<w - 1. shift_left patch ! i ! j = patch ! i ! (j + 1))
    \<and> (\<forall>i<h. shift_left patch ! i ! (w - 1) = patch ! i ! (w - 1))
    \<and> has_shape (shift_right patch) h w
    \<and> (\<forall>i<h. \<forall>j<w - 1. shift_right patch ! i ! (j + 1) = patch ! i ! j)
    \<and> (\<forall>i<h. shift_right patch ! i ! 0 = patch ! i ! 0)"
proof -
  from assms(2) have w: "0 < w" by simp
  have "has_shape (shift_left patch) h w"
    by (rule shift_left_shape [OF assms(1) w])
  moreover have "\<forall>i<h. \<forall>j<w - 1. shift_left patch ! i ! j = patch ! i ! (j + 1)"
    using shift_left_pixel [OF assms(1) w] by simp
  moreover have "\<forall>i<h. shift_left patch ! i ! (w - 1) = patch ! i ! (w - 1)"
    using shift_left_pixel [OF assms(1) w, of _ "w - 1"] w by simp
  moreover have "has_shape (shift_right patch) h w"
    by (rule shift_right_shape [OF assms(1) w])
  moreover have "\<forall>i<h. \<forall>j<w - 1. shift_right patch ! i ! (j + 1) = patch ! i ! j"
    using shift_right_pixel [OF assms(1) w, of _ "_ + 1"] by simp
  moreover have "\<forall>i<h. shift_right patch ! i ! 0 = patch ! i ! 0"
    using shift_right_pixel [OF assms(1) w, of _ 0] w by simp
  ultimately show ?thesis by blast
qed

theorem shift_replicates_edge_column_witness:
  "has_shape [[1, 2, 3], [4, 5, 6 :: int]] 2 3 \<and> (1::nat) \<le> 3
    \<and> shift_left [[1, 2, 3], [4, 5, 6 :: int]] = [[2, 3, 3], [5, 6, 6]]
    \<and> shift_right [[1, 2, 3], [4, 5, 6 :: int]] = [[1, 1, 2], [4, 4, 5]]
    \<and> has_shape (shift_left [[1, 2, 3], [4, 5, 6 :: int]]) 2 3
    \<and> has_shape (shift_right [[1, 2, 3], [4, 5, 6 :: int]]) 2 3"
proof -
  have s: "has_shape [[1, 2, 3], [4, 5, 6 :: int]] 2 3"
    by (simp add: has_shape_def)
  have w: "(1::nat) \<le> 3" by simp
  have l: "shift_left [[1, 2, 3], [4, 5, 6 :: int]] = [[2, 3, 3], [5, 6, 6]]"
    by (simp add: shift_left_def concat_axis1_def cols_from_def slice_bound_def)
  have r: "shift_right [[1, 2, 3], [4, 5, 6 :: int]] = [[1, 1, 2], [4, 4, 5]]"
    by (simp add: shift_right_def concat_axis1_def cols_upto_def slice_bound_def)
  from shift_replicates_edge_column [OF s w] s w l r show ?thesis by simp
qed

section \<open>The shift augmentation\<close>

lemma bitlen_one: "bitlen 1 = 1"
  by (simp add: bitlen_alt_def)

lemma bitlen_three: "bitlen 3 = 2"
  by code_simp

lemma to_float32_half: "to_float32 (1 / 2) = 1 / 2"
proof -
  have "float32_exponent (1 / 2) = - 1"
    by (simp add: float32_exponent_def bitlen_one)
  then show ?thesis
    by (simp add: to_float32_def round_half_even_def power_int_minus)
qed

lemma to_float32_quarter: "to_float32 (1 / 4) = 1 / 4"
proof -
  have "float32_exponent (1 / 4) = - 2"
    by (simp add: float32_exponent_def bitlen_three)
  then show ?thesis
    by (simp add: to_float32_def round_half_even_def power_int_minus)
qed

text \<open>
  The double nearest to \<open>0.500000001\<close> is \<open>4503599636377695 / 2 ^ 53\<close>. It lies
  between \<open>1/2\<close> and the next float32, nearer to \<open>1/2\<close>, and its half does the same
  at \<open>1/4\<close>.
\<close>

lemma to_float32_above_half: "to_float32 (4503599636377695 / 9007199254740992) = 1 / 2"
proof -
  have "float32_exponent (4503599636377695 / 9007199254740992) = - 1"
    by (simp add: float32_exponent_def bitlen_one)
  then show ?thesis
    by (simp add: to_float32_def round_half_even_def power_int_minus)
qed

lemma to_float32_above_quarter:
  "to_float32 (4503599636377695 / 18014398509481984) = 1 / 4"
proof -
  have "float32_exponent (4503599636377695 / 18014398509481984) = - 2"
    by (simp add: float32_exponent_def bitlen_three)
  then show ?thesis
    by (simp add: to_float32_def round_half_even_def power_int_minus)
qed

text \<open>
  C1, as the claim states it, fails where a threshold is not a float32. With the shift
  probability \<open>4503599636377695 / 2 ^ 53\<close> and the draw \<open>r = 1/2\<close>, the claim's
  \<open>p/2 \<le> r < p\<close> holds and asks for the right shift, which would change the patch; the
  comparison is made with \<open>p\<close> rounded to the float32 \<open>1/2\<close>, and the patch is returned
  as it is.
\<close>

theorem augment_shift_real_thresholds_counterexample:
  "min 1 (4503599636377695 / 9007199254740992 :: real) / 2 \<le> 1 / 2
   \<and> (1 / 2 :: real) < min 1 (4503599636377695 / 9007199254740992)
   \<and> shift_right [[0, 1 :: real]] = [[0, 0]]
   \<and> augment_shift
        (default_flags\<lparr>augmentation_x_shift_probability :=
           4503599636377695 / 9007199254740992\<rparr>)
        [[0, 1]] (constant_rng (1 / 2))
      = ([[0, 1]], (constant_rng (1 / 2))\<lparr>draws_made := 1\<rparr>)"
  by (simp add: augment_shift_def random_uniform_def tf_cond_def small_defs
      to_float32_above_half to_float32_above_quarter
      shift_right_def concat_axis1_def cols_upto_def slice_bound_def)

text \<open>
  C1, as amended. One call of the shift augmentation makes exactly one draw \<open>r\<close>. With
  \<open>p = min 1 p_shift\<close> and with \<open>p/2\<close> and \<open>p\<close> each rounded to float32, as the
  comparison with the float32 draw rounds them, it returns the left shift when
  \<open>r < float32 (p/2)\<close>, the right shift when \<open>float32 (p/2) \<le> r < float32 p\<close> and the
  input patch otherwise, and exactly one of the three conditions holds.
\<close>

theorem augment_shift_branches:
  "(let r = source g (draws_made g);
        p = min 1 (augmentation_x_shift_probability FLAGS);
        left = (r < to_float32 (p / 2));
        right = (to_float32 (p / 2) \<le> r \<and> r < to_float32 p);
        neither = (\<not> r < to_float32 (p / 2)
                    \<and> \<not> (to_float32 (p / 2) \<le> r \<and> r < to_float32 p))
    in augment_shift FLAGS patch g =
         (if left then shift_left patch else if right then shift_right patch else patch,
          g\<lparr>draws_made := draws_made g + 1\<rparr>)
       \<and> ((left \<and> \<not> right \<and> \<not> neither) \<or> (right \<and> \<not> left \<and> \<not> neither)
            \<or> (neither \<and> \<not> left \<and> \<not> right)))"
  by (auto simp add: augment_shift_def random_uniform_def tf_cond_def Let_def)

theorem augment_shift_branches_witness:
  "augment_shift default_flags [[0, 1]] (constant_rng (1 / 8)) =
     ([[1, 1]], \<lparr>source = (\<lambda>_. 1 / 8), draws_made = 1\<rparr>)
   \<and> augment_shift default_flags [[0, 1]] (constant_rng (3 / 8)) =
     ([[0, 0]], \<lparr>source = (\<lambda>_. 3 / 8), draws_made = 1\<rparr>)
   \<and> augment_shift default_flags [[0, 1]] (constant_rng (3 / 4)) =
     ([[0, 1]], \<lparr>source = (\<lambda>_. 3 / 4), draws_made = 1\<rparr>)"
  using augment_shift_branches [of "constant_rng (1 / 8)" default_flags "[[0, 1]]"]
    augment_shift_branches [of "constant_rng (3 / 8)" default_flags "[[0, 1]]"]
    augment_shift_branches [of "constant_rng (3 / 4)" default_flags "[[0, 1]]"]
  by (simp add: small_defs to_float32_half to_float32_quarter shift_left_def
      shift_right_def concat_axis1_def cols_from_def cols_upto_def slice_bound_def Let_def)

section \<open>The rotation augmentation\<close>





section \<open>The order of the two augmentations\<close>

text \<open>
  C6. The full augmentation is the rotation augmentation applied to the result of the
  shift augmentation, whatever the two draws are: the shift takes the first draw, the
  rotation takes the second (as the angle \<open>u * (m - (- m)) + (- m)\<close> for the unit draw
  \<open>u\<close> and \<open>m\<close> the maximum in radians), and two draws are made in all.
\<close>

theorem augment_shift_then_rotation:
  "augment tf_rotate FLAGS patch g =
     (case augment_shift FLAGS patch g of
        (shifted, g1) \<Rightarrow> augment_rotation tf_rotate FLAGS shifted g1)
   \<and> snd (augment_shift FLAGS patch g) = g\<lparr>draws_made := draws_made g + 1\<rparr>
   \<and> augment tf_rotate FLAGS patch g =
       (let m = radians (augmentation_max_rotation_degrees FLAGS);
            rotation = source g (draws_made g + 1) * (m - (- m)) + (- m)
        in (one_minus (tf_rotate (one_minus (fst (augment_shift FLAGS patch g))) rotation BILINEAR),
            g\<lparr>draws_made := draws_made g + 2\<rparr>))"
  by (simp add: augment_def augment_shift_def augment_rotation_def random_uniform_def
      Let_def split_def)

theorem augment_shift_then_rotation_witness:
  "augment (\<lambda>p _ _. p) default_flags [[0, 1]] (constant_rng (1 / 8)) =
     ([[1, 1]], \<lparr>source = (\<lambda>_. 1 / 8), draws_made = 2\<rparr>)"
  using augment_shift_then_rotation [of "\<lambda>p _ _. p" default_flags "[[0, 1]]" "constant_rng (1 / 8)"]
  by (auto simp add: small_defs augment_shift_def random_uniform_def tf_cond_def
      to_float32_half to_float32_quarter shift_left_def concat_axis1_def cols_from_def
      slice_bound_def Let_def one_minus_def numeral_2_eq_2)

section \<open>The patch dimension reader\<close>

text \<open>
  C3. The code where the training glob matches no file, or only an empty file: the loop
  ends without returning, so the reader returns \<^verbatim>\<open>None\<close> and raises nothing, and the
  decorated function stores that \<^verbatim>\<open>None\<close>.
\<close>

theorem read_patch_dimensions_returns_None_without_records:
  "read_patch_dimensions_body small_fs (default_flags\<lparr>train_input_patches := ''none*''\<rparr>)
     = Inr None
   \<and> read_patch_dimensions_body small_fs (default_flags\<lparr>train_input_patches := ''empty*''\<rparr>)
     = Inr None
   \<and> read_patch_dimensions small_fs (default_flags\<lparr>train_input_patches := ''none*''\<rparr>)
       fresh_process
     = (Inr None, \<lparr>dimension_cache = Some None, dimension_scans = 1\<rparr>)"
  by (simp add: read_patch_dimensions_def read_patch_dimensions_body_def small_fs_def
      default_flags_def fresh_process_def)

text \<open>
  C7, as the claim states it, fails twice. A record without the two features in front
  of one with them makes the reader raise IndexError, where the claim gives the
  dimensions \<open>(1, 2)\<close> of the later record; and a file that cannot be read makes the
  reader raise, where the claim passes on to the next file.
\<close>

theorem scan_skips_nothing_but_empty_files_counterexample:
  "read_patch_dimensions_body small_fs (default_flags\<lparr>train_input_patches := ''late*''\<rparr>)
     = Inl IndexError
   \<and> claimed_scan small_fs
        (get_matching_files small_fs (train_input_patches (default_flags\<lparr>train_input_patches := ''late*''\<rparr>)))
     = Some (1, 2)
   \<and> read_patch_dimensions_body small_fs (default_flags\<lparr>train_input_patches := ''mixed*''\<rparr>)
     = Inl DataLossError
   \<and> claimed_scan small_fs
        (get_matching_files small_fs (train_input_patches (default_flags\<lparr>train_input_patches := ''mixed*''\<rparr>)))
     = Some (1, 2)"
  by (simp add: read_patch_dimensions_body_def small_fs_def default_flags_def
      FromString_def first_value_def int64_list_value_def labeled_patch_def)

lemma scan_skip_empty:
  "\<forall>f \<in> set empty_files. tf_record_file fs f = [] \<Longrightarrow>
   scan_files fs (empty_files @ rest) = scan_files fs rest"
  by (induction empty_files) simp_all

text \<open>
  C7, as amended. Empty files are skipped and the scan goes on to the next file. The
  first thing read from the first file that is not empty decides the outcome: a record
  that parses and carries a height and a width, each with at least one value, gives
  the first value of each as \<open>(height, width)\<close>; a file that cannot be read there, a
  record that does not parse, and a record without one of the two values each raise.
\<close>

theorem scan_first_record_decides:
  assumes "\<forall>f \<in> set empty_files. tf_record_file fs f = []"
    and "tf_record_file fs filename = c # cs"
  shows "scan_files fs (empty_files @ filename # rest) =
     (case c of
        Corrupt \<Rightarrow> Inl DataLossError
      | Record Malformed \<Rightarrow> Inl DecodeError
      | Record (Serialized ex) \<Rightarrow>
          (case int64_list_value ex ''height'' of
             [] \<Rightarrow> Inl IndexError
           | h # _ \<Rightarrow>
               (case int64_list_value ex ''width'' of
                  [] \<Rightarrow> Inl IndexError
                | w # _ \<Rightarrow> Inr (Some (h, w)))))"
  using assms
  by (simp add: scan_skip_empty FromString_def first_value_def
      split: chunk.splits serialized.splits list.splits)

theorem scan_first_record_decides_witness:
  "scan_files small_fs ([''train-0''] @ ''train-1'' # []) = Inr (Some (1, 2))"
proof -
  have e: "\<forall>f \<in> set [''train-0'']. tf_record_file small_fs f = []"
    by (simp add: small_defs)
  have f: "tf_record_file small_fs ''train-1'' =
      Record (Serialized (labeled_patch 1 2 [0, 1] 3 (1 / 2))) # []"
    by (simp add: small_defs)
  from scan_first_record_decides [OF e f, of "[]"] show ?thesis
    by (simp add: small_defs)
qed

text \<open>
  C8. When a call of the reader returns a value, the next call returns the same value,
  leaves the state of the process as it is, and so makes no scan, whatever the file
  system holds by then.
\<close>

theorem read_patch_dimensions_memoized:
  assumes "read_patch_dimensions fs FLAGS st = (Inr v, st1)"
  shows "read_patch_dimensions fs' FLAGS st1 = (Inr v, st1)
       \<and> dimension_scans (snd (read_patch_dimensions fs' FLAGS st1)) = dimension_scans st1"
  using assms
  by (auto simp add: read_patch_dimensions_def Let_def split: option.splits sum.splits)

theorem read_patch_dimensions_memoized_witness:
  "read_patch_dimensions small_fs default_flags fresh_process =
     (Inr (Some (1, 2)), \<lparr>dimension_cache = Some (Some (1, 2)), dimension_scans = 1\<rparr>)
   \<and> read_patch_dimensions (small_fs\<lparr>get_matching_files := (\<lambda>_. [])\<rparr>) default_flags
        \<lparr>dimension_cache = Some (Some (1, 2)), dimension_scans = 1\<rparr> =
     (Inr (Some (1, 2)), \<lparr>dimension_cache = Some (Some (1, 2)), dimension_scans = 1\<rparr>)"
proof -
  have h: "read_patch_dimensions small_fs default_flags fresh_process =
     (Inr (Some (1, 2)), \<lparr>dimension_cache = Some (Some (1, 2)), dimension_scans = 1\<rparr>)"
    by (simp add: read_patch_dimensions_def read_patch_dimensions_body_def small_defs)
  from read_patch_dimensions_memoized [OF h, of "small_fs\<lparr>get_matching_files := (\<lambda>_. [])\<rparr>"] h show ?thesis by simp
qed

section \<open>The example parser\<close>

lemma parse_scalar_int:
  "parse_fixed_len (FixedLenFeature [] Int64) f = Inr t \<longleftrightarrow>
     (\<exists>v. f = Some (Int64_list [v]) \<and> t = Int_scalar v)"
  by (cases "(FixedLenFeature [] Int64, f)" rule: parse_fixed_len.cases)
     (auto split: list.splits)

lemma parse_scalar_float:
  "parse_fixed_len (FixedLenFeature [] Float32) f = Inr t \<longleftrightarrow>
     (\<exists>v. f = Some (Float_list [v]) \<and> t = Float_scalar v)"
  by (cases "(FixedLenFeature [] Float32, f)" rule: parse_fixed_len.cases)
     (auto split: list.splits)

lemma parse_matrix:
  "parse_fixed_len (FixedLenFeature [h, w] Float32) f = Inr t \<longleftrightarrow>
     (\<exists>vs. f = Some (Float_list vs) \<and> 0 \<le> h \<and> 0 \<le> w \<and> int (length vs) = h * w
        \<and> t = Float_matrix (reshape2 (nat h) (nat w) vs))"
  by (cases "(FixedLenFeature [h, w] Float32, f)" rule: parse_fixed_len.cases)
     (auto split: list.splits)

lemma parse_training_example:
  "parse_single_example record_bytes (feature_types FLAGS (h, w)) = Inr features \<longleftrightarrow>
     (\<exists>ex vs label.
        record_bytes = Serialized ex
        \<and> ex ''patch'' = Some (Float_list vs) \<and> 0 \<le> h \<and> 0 \<le> w \<and> int (length vs) = h * w
        \<and> ex ''label'' = Some (Int64_list [label])
        \<and> (if use_included_label_weight FLAGS
            then \<exists>lw. ex ''label_weight'' = Some (Float_list [lw])
                   \<and> features = [''label_weight'' \<mapsto> Float_scalar lw,
                        ''label'' \<mapsto> Int_scalar label,
                        ''patch'' \<mapsto> Float_matrix (reshape2 (nat h) (nat w) vs)]
            else features = [''label'' \<mapsto> Int_scalar label,
                        ''patch'' \<mapsto> Float_matrix (reshape2 (nat h) (nat w) vs)]))"
  by (cases record_bytes)
     (auto simp add: parse_single_example_def feature_types_def parse_scalar_int
        parse_scalar_float parse_matrix split: sum.splits)

lemma reshape_row: "reshape2 (Suc 0) 2 [a, b] = [[a, b]]"
  by (simp add: reshape2_def)

text \<open>
  C5. For every record that the framework parses against the feature types of the
  parser, the weight is \<open>weights_from_labels label\<close>, multiplied by the record's
  \<^verbatim>\<open>label_weight\<close> exactly when the flag \<^verbatim>\<open>use_included_label_weight\<close> is set, and
  the parser returns the augmented patch and that weight as the features, with the
  record's label beside them.
\<close>

theorem parser_weight_and_label:
  assumes "parse_single_example record_bytes (feature_types FLAGS (h, w)) = Inr features"
  shows "\<exists>ex label label_weight p.
      record_bytes = Serialized ex
    \<and> ex ''label'' = Some (Int64_list [label])
    \<and> (use_included_label_weight FLAGS \<longrightarrow>
         ex ''label_weight'' = Some (Float_list [label_weight]))
    \<and> features ''patch'' = Some (Float_matrix p)
    \<and> parser weights_from_labels tf_rotate FLAGS (h, w) record_bytes g =
        (Inr ([''patch'' \<mapsto> Float_matrix (fst (augment tf_rotate FLAGS p g)),
               ''weight'' \<mapsto> Float_scalar
                  (if use_included_label_weight FLAGS
                   then weights_from_labels label * label_weight
                   else weights_from_labels label)],
              label),
         snd (augment tf_rotate FLAGS p g))"
proof -
  from assms obtain ex vs label where
    r: "record_bytes = Serialized ex" and l: "ex ''label'' = Some (Int64_list [label])"
    and f: "if use_included_label_weight FLAGS
            then \<exists>lw. ex ''label_weight'' = Some (Float_list [lw])
                   \<and> features = [''label_weight'' \<mapsto> Float_scalar lw,
                        ''label'' \<mapsto> Int_scalar label,
                        ''patch'' \<mapsto> Float_matrix (reshape2 (nat h) (nat w) vs)]
            else features = [''label'' \<mapsto> Int_scalar label,
                        ''patch'' \<mapsto> Float_matrix (reshape2 (nat h) (nat w) vs)]"
    unfolding parse_training_example by blast
  show ?thesis
  proof (cases "use_included_label_weight FLAGS")
    case True
    with f obtain lw where lw: "ex ''label_weight'' = Some (Float_list [lw])"
      and feats: "features = [''label_weight'' \<mapsto> Float_scalar lw,
                        ''label'' \<mapsto> Int_scalar label,
                        ''patch'' \<mapsto> Float_matrix (reshape2 (nat h) (nat w) vs)]"
      by auto
    have "parser weights_from_labels tf_rotate FLAGS (h, w) record_bytes g =
        (Inr ([''patch'' \<mapsto> Float_matrix (fst (augment tf_rotate FLAGS (reshape2 (nat h) (nat w) vs) g)),
               ''weight'' \<mapsto> Float_scalar (weights_from_labels label * lw)], label),
         snd (augment tf_rotate FLAGS (reshape2 (nat h) (nat w) vs) g))"
      using assms True by (simp add: parser_def feats split_def Let_def)
    with r l lw True feats show ?thesis by auto
  next
    case False
    with f have feats: "features = [''label'' \<mapsto> Int_scalar label,
                        ''patch'' \<mapsto> Float_matrix (reshape2 (nat h) (nat w) vs)]"
      by simp
    have "parser weights_from_labels tf_rotate FLAGS (h, w) record_bytes g =
        (Inr ([''patch'' \<mapsto> Float_matrix (fst (augment tf_rotate FLAGS (reshape2 (nat h) (nat w) vs) g)),
               ''weight'' \<mapsto> Float_scalar (weights_from_labels label)], label),
         snd (augment tf_rotate FLAGS (reshape2 (nat h) (nat w) vs) g))"
      using assms False by (simp add: parser_def feats split_def Let_def)
    with r l False feats show ?thesis by auto
  qed
qed

theorem parser_weight_and_label_witness:
  "parse_single_example (Serialized (labeled_patch 1 2 [0, 1] 3 2))
       (feature_types (default_flags\<lparr>use_included_label_weight := True\<rparr>) (1, 2))
     = Inr [''label_weight'' \<mapsto> Float_scalar 2, ''label'' \<mapsto> Int_scalar 3,
            ''patch'' \<mapsto> Float_matrix [[0, 1]]]
   \<and> parser (\<lambda>label. real_of_int label + 1) (\<lambda>p _ _. p)
       (default_flags\<lparr>use_included_label_weight := True\<rparr>) (1, 2)
       (Serialized (labeled_patch 1 2 [0, 1] 3 2)) (constant_rng (1 / 8))
     = (Inr ([''patch'' \<mapsto> Float_matrix [[1, 1]], ''weight'' \<mapsto> Float_scalar 8], 3),
        \<lparr>source = (\<lambda>_. 1 / 8), draws_made = 2\<rparr>)"
proof -
  have h: "parse_single_example (Serialized (labeled_patch 1 2 [0, 1] 3 2))
       (feature_types (default_flags\<lparr>use_included_label_weight := True\<rparr>) (1, 2))
     = Inr [''label_weight'' \<mapsto> Float_scalar 2, ''label'' \<mapsto> Int_scalar 3,
            ''patch'' \<mapsto> Float_matrix [[0, 1]]]"
    by (simp add: parse_single_example_def feature_types_def small_defs reshape_row)
  have a: "augment (\<lambda>p _ _. p) (default_flags\<lparr>use_included_label_weight := True\<rparr>)
      [[0, 1]] (constant_rng (1 / 8)) = ([[1, 1]], \<lparr>source = (\<lambda>_. 1 / 8), draws_made = 2\<rparr>)"
    by (simp add: augment_def augment_shift_def augment_rotation_def random_uniform_def
        tf_cond_def small_defs to_float32_half to_float32_quarter shift_left_def
        concat_axis1_def cols_from_def slice_bound_def Let_def one_minus_def)
  from parser_weight_and_label [OF h, of "\<lambda>label. real_of_int label + 1" "\<lambda>p _ _. p"
      "constant_rng (1 / 8)"] h a
  show ?thesis by (auto simp add: small_defs)
qed

section \<open>The serving input receiver\<close>

lemma parse_example_patch_exact:
  "parse_example_patch (h, w) examples = Inr ps \<Longrightarrow>
     length ps = length examples
     \<and> (\<forall>i<length examples. \<exists>ex vs.
           examples ! i = Serialized ex \<and> ex ''patch'' = Some (Float_list vs)
           \<and> int (length vs) = h * w \<and> ps ! i = reshape2 (nat h) (nat w) vs)"
proof (induction examples arbitrary: ps)
  case Nil
  then show ?case by simp
next
  case (Cons record_bytes rest)
  from Cons.prems obtain features p ps' where
    parsed: "parse_single_example record_bytes [(''patch'', FixedLenFeature [h, w] Float32)]
               = Inr features"
    and p: "features ''patch'' = Some (Float_matrix p)"
    and rest: "parse_example_patch (h, w) rest = Inr ps'"
    and ps: "ps = p # ps'"
    by (auto split: sum.splits option.splits tensor.splits)
  from parsed p obtain ex vs where
    first: "record_bytes = Serialized ex" "ex ''patch'' = Some (Float_list vs)"
      "int (length vs) = h * w" "p = reshape2 (nat h) (nat w) vs"
    by (cases record_bytes)
       (auto simp add: parse_single_example_def parse_matrix split: sum.splits)
  from Cons.IH [OF rest] have
    len: "length ps' = length rest"
    and ih: "\<forall>i<length rest. \<exists>ex vs.
           rest ! i = Serialized ex \<and> ex ''patch'' = Some (Float_list vs)
           \<and> int (length vs) = h * w \<and> ps' ! i = reshape2 (nat h) (nat w) vs"
    by simp_all
  show ?case
  proof (intro conjI allI impI)
    show "length ps = length (record_bytes # rest)"
      using ps len by simp
  next
    fix i assume "i < length (record_bytes # rest)"
    then show "\<exists>ex vs. (record_bytes # rest) ! i = Serialized ex
        \<and> ex ''patch'' = Some (Float_list vs)
        \<and> int (length vs) = h * w \<and> ps ! i = reshape2 (nat h) (nat w) vs"
      using first ih ps by (cases i) auto
  qed
qed

text \<open>
  C9. The receiver that \<open>serving_fn\<close> returns hands the model, under the key
  \<^verbatim>\<open>'patch'\<close>, the fed patches themselves, or for serialized examples the values of
  each example's \<^verbatim>\<open>patch\<close> feature laid out in \<open>h\<close> rows of \<open>w\<close>. No shift and no
  rotation is applied, and the receiver makes no random draw.
\<close>

theorem serving_applies_no_augmentation:
  assumes "serving_fn fs FLAGS st = (Inr receiver, st1)"
  shows "\<exists>h w.
      read_patch_dimensions fs FLAGS st = (Inr (Some (h, w)), st1)
    \<and> (\<forall>fed features. receiver (Feed_patch fed) = Inr features \<longrightarrow>
          features = [''patch'' \<mapsto> fed])
    \<and> (\<forall>examples features. receiver (Feed_examples examples) = Inr features \<longrightarrow>
          (\<exists>ps. features = [''patch'' \<mapsto> ps] \<and> length ps = length examples
             \<and> (\<forall>i<length examples. \<exists>ex vs.
                   examples ! i = Serialized ex \<and> ex ''patch'' = Some (Float_list vs)
                   \<and> int (length vs) = h * w \<and> ps ! i = reshape2 (nat h) (nat w) vs)))"
proof -
  from assms obtain h w where
    dims: "read_patch_dimensions fs FLAGS st = (Inr (Some (h, w)), st1)"
    and rcv: "receiver = serving_features (h, w)"
    by (auto simp add: serving_fn_def split: prod.splits sum.splits option.splits if_splits)
  have a: "features = [''patch'' \<mapsto> fed]"
    if "receiver (Feed_patch fed) = Inr features" for fed features
    using that by (auto simp add: rcv serving_features_def split: if_splits)
  have b: "\<exists>ps. features = [''patch'' \<mapsto> ps] \<and> length ps = length examples
             \<and> (\<forall>i<length examples. \<exists>ex vs.
                   examples ! i = Serialized ex \<and> ex ''patch'' = Some (Float_list vs)
                   \<and> int (length vs) = h * w \<and> ps ! i = reshape2 (nat h) (nat w) vs)"
    if "receiver (Feed_examples examples) = Inr features" for examples features
  proof -
    from that obtain ps where ps: "parse_example_patch (h, w) examples = Inr ps"
      and f: "features = [''patch'' \<mapsto> ps]"
      by (auto simp add: rcv serving_features_def split: sum.splits)
    from parse_example_patch_exact [OF ps] f show ?thesis by blast
  qed
  from dims a b show ?thesis by blast
qed

theorem serving_applies_no_augmentation_witness:
  "serving_fn small_fs default_flags fresh_process =
     (Inr (serving_features (1, 2)),
      \<lparr>dimension_cache = Some (Some (1, 2)), dimension_scans = 1\<rparr>)
   \<and> serving_features (1, 2) (Feed_examples [Serialized (labeled_patch 1 2 [0, 1] 3 2)]) =
       Inr [''patch'' \<mapsto> [[[0, 1]]]]
   \<and> serving_features (1, 2) (Feed_patch [[[1 / 4, 3 / 4]]]) =
       Inr [''patch'' \<mapsto> [[[1 / 4, 3 / 4]]]]"
proof -
  have h: "serving_fn small_fs default_flags fresh_process =
     (Inr (serving_features (1, 2)),
      \<lparr>dimension_cache = Some (Some (1, 2)), dimension_scans = 1\<rparr>)"
    by (simp add: serving_fn_def read_patch_dimensions_def read_patch_dimensions_body_def
        small_defs)
  have e: "serving_features (1, 2) (Feed_examples [Serialized (labeled_patch 1 2 [0, 1] 3 2)]) =
       Inr [''patch'' \<mapsto> [[[0, 1]]]]"
    by (simp add: serving_features_def parse_single_example_def labeled_patch_def reshape_row)
  have p: "serving_features (1, 2) (Feed_patch [[[1 / 4, 3 / 4]]]) =
       Inr [''patch'' \<mapsto> [[[1 / 4, 3 / 4]]]]"
    by (simp add: serving_features_def has_shape_def)
  from serving_applies_no_augmentation [OF h] h e p show ?thesis by simp
qed

section \<open>The input function\<close>

lemma parser_returns:
  assumes "parser weights_from_labels tf_rotate FLAGS (h, w) record_bytes g
             = (Inr (features, label), g')"
  shows "\<exists>ex vs. record_bytes = Serialized ex \<and> ex ''patch'' = Some (Float_list vs)
           \<and> int (length vs) = h * w
           \<and> features ''patch'' =
               Some (Float_matrix
                 (fst (augment tf_rotate FLAGS (reshape2 (nat h) (nat w) vs) g)))"
proof -
  from assms obtain parsed where
    parsed: "parse_single_example record_bytes (feature_types FLAGS (h, w)) = Inr parsed"
    by (auto simp add: parser_def split: sum.splits)
  then obtain ex vs l where
    r: "record_bytes = Serialized ex" and p: "ex ''patch'' = Some (Float_list vs)"
    and n: "int (length vs) = h * w"
    and f: "if use_included_label_weight FLAGS
            then \<exists>lw. ex ''label_weight'' = Some (Float_list [lw])
                   \<and> parsed = [''label_weight'' \<mapsto> Float_scalar lw,
                        ''label'' \<mapsto> Int_scalar l,
                        ''patch'' \<mapsto> Float_matrix (reshape2 (nat h) (nat w) vs)]
            else parsed = [''label'' \<mapsto> Int_scalar l,
                        ''patch'' \<mapsto> Float_matrix (reshape2 (nat h) (nat w) vs)]"
    unfolding parse_training_example by blast
  have "features ''patch'' =
      Some (Float_matrix (fst (augment tf_rotate FLAGS (reshape2 (nat h) (nat w) vs) g)))"
  proof (cases "use_included_label_weight FLAGS")
    case True
    with f obtain lw where
      "parsed = [''label_weight'' \<mapsto> Float_scalar lw, ''label'' \<mapsto> Int_scalar l,
                 ''patch'' \<mapsto> Float_matrix (reshape2 (nat h) (nat w) vs)]"
      by auto
    with assms parsed True show ?thesis
      by (auto simp add: parser_def split_def Let_def)
  next
    case False
    with f have
      "parsed = [''label'' \<mapsto> Int_scalar l,
                 ''patch'' \<mapsto> Float_matrix (reshape2 (nat h) (nat w) vs)]"
      by simp
    with assms parsed False show ?thesis
      by (auto simp add: parser_def split_def Let_def)
  qed
  with r p n show ?thesis by blast
qed

lemma parser_rejects:
  assumes "ex ''patch'' = Some (Float_list vs)" and "int (length vs) \<noteq> h * w"
  shows "parser weights_from_labels tf_rotate FLAGS (h, w) (Serialized ex) g
           = (Inl InvalidArgumentError, g)"
  using assms by (simp add: parser_def parse_single_example_def feature_types_def)

text \<open>
  C10. When the reader returns the dimensions \<open>(h, w)\<close>, neither negative, then
  whatever glob \<open>input_fn\<close> is given, the function it maps over the records of that glob
  is the parser for \<open>(h, w)\<close>, and so it is for the evaluation input function. That
  parser returns a result only for a record whose \<^verbatim>\<open>patch\<close> feature has \<open>h * w\<close>
  values, which it lays out in \<open>h\<close> rows of \<open>w\<close> before augmenting them, and it raises
  on a record whose \<^verbatim>\<open>patch\<close> feature has another number of values, whatever
  \<^verbatim>\<open>height\<close> and \<^verbatim>\<open>width\<close> that record carries. With nothing cached, \<open>(h, w)\<close> are
  the dimensions found by scanning the files of the training glob.
\<close>

theorem input_fn_uses_training_dimensions:
  assumes dims: "read_patch_dimensions fs FLAGS st = (Inr (Some (h, w)), st1)"
    and nonneg: "0 \<le> h" "0 \<le> w"
  shows "input_fn weights_from_labels tf_rotate get_batched_tensor fs FLAGS input_patches st =
       (Inr (get_batched_tensor
               \<lparr>dataset_records = TFRecordDataset fs (get_matching_files fs input_patches),
                map_fn = parser weights_from_labels tf_rotate FLAGS (h, w)\<rparr>), st1)
    \<and> eval_spec_input_fn weights_from_labels tf_rotate get_batched_tensor fs FLAGS st =
       (Inr (get_batched_tensor
               \<lparr>dataset_records =
                  TFRecordDataset fs (get_matching_files fs (eval_input_patches FLAGS)),
                map_fn = parser weights_from_labels tf_rotate FLAGS (h, w)\<rparr>), st1)
    \<and> (\<forall>record_bytes g features label g'.
          parser weights_from_labels tf_rotate FLAGS (h, w) record_bytes g
            = (Inr (features, label), g') \<longrightarrow>
          (\<exists>ex vs. record_bytes = Serialized ex \<and> ex ''patch'' = Some (Float_list vs)
             \<and> int (length vs) = h * w
             \<and> features ''patch'' =
                 Some (Float_matrix
                   (fst (augment tf_rotate FLAGS (reshape2 (nat h) (nat w) vs) g)))))
    \<and> (\<forall>ex vs g. ex ''patch'' = Some (Float_list vs) \<and> int (length vs) \<noteq> h * w \<longrightarrow>
          parser weights_from_labels tf_rotate FLAGS (h, w) (Serialized ex) g
            = (Inl InvalidArgumentError, g))
    \<and> (if dimension_cache st = None
        then scan_files fs (get_matching_files fs (train_input_patches FLAGS)) = Inr (Some (h, w))
        else dimension_cache st = Some (Some (h, w)))"
proof -
  have a: "input_fn weights_from_labels tf_rotate get_batched_tensor fs FLAGS input_patches st =
       (Inr (get_batched_tensor
               \<lparr>dataset_records = TFRecordDataset fs (get_matching_files fs input_patches),
                map_fn = parser weights_from_labels tf_rotate FLAGS (h, w)\<rparr>), st1)"
    for input_patches
    using dims nonneg by (simp add: input_fn_def)
  have b: "if dimension_cache st = None
        then scan_files fs (get_matching_files fs (train_input_patches FLAGS)) = Inr (Some (h, w))
        else dimension_cache st = Some (Some (h, w))"
    using dims
    by (auto simp add: read_patch_dimensions_def read_patch_dimensions_body_def Let_def
        split: option.splits sum.splits)
  from a b show ?thesis
    by (auto simp add: eval_spec_input_fn_def parser_rejects dest: parser_returns)
qed

theorem input_fn_uses_training_dimensions_witness:
  "read_patch_dimensions small_fs default_flags fresh_process =
     (Inr (Some (1, 2)), \<lparr>dimension_cache = Some (Some (1, 2)), dimension_scans = 1\<rparr>)
   \<and> (0 :: int) \<le> 1 \<and> (0 :: int) \<le> 2
   \<and> tf_record_file small_fs ''eval-0'' = [Record (Serialized (labeled_patch 2 1 [1, 0] 4 1))]
   \<and> eval_spec_input_fn (\<lambda>label. real_of_int label + 1) (\<lambda>p _ _. p) (\<lambda>dataset. dataset)
        small_fs default_flags fresh_process =
       (Inr \<lparr>dataset_records = [Record (Serialized (labeled_patch 2 1 [1, 0] 4 1))],
             map_fn = parser (\<lambda>label. real_of_int label + 1) (\<lambda>p _ _. p) default_flags (1, 2)\<rparr>,
        \<lparr>dimension_cache = Some (Some (1, 2)), dimension_scans = 1\<rparr>)
   \<and> map_fn
        \<lparr>dataset_records = [Record (Serialized (labeled_patch 2 1 [1, 0] 4 1))],
         map_fn = parser (\<lambda>label. real_of_int label + 1) (\<lambda>p _ _. p) default_flags (1, 2)\<rparr>
        (Serialized (labeled_patch 2 1 [1, 0] 4 1)) (constant_rng (3 / 4))
      = (Inr ([''patch'' \<mapsto> Float_matrix [[1, 0]], ''weight'' \<mapsto> Float_scalar 5], 4),
         \<lparr>source = (\<lambda>_. 3 / 4), draws_made = 2\<rparr>)
   \<and> parser (\<lambda>label. real_of_int label + 1) (\<lambda>p _ _. p) default_flags (1, 2)
        (Serialized (labeled_patch 3 1 [1, 0, 1] 4 1)) (constant_rng (3 / 4))
      = (Inl InvalidArgumentError, constant_rng (3 / 4))"
proof -
  have h: "read_patch_dimensions small_fs default_flags fresh_process =
     (Inr (Some (1, 2)), \<lparr>dimension_cache = Some (Some (1, 2)), dimension_scans = 1\<rparr>)"
    by (simp add: read_patch_dimensions_def read_patch_dimensions_body_def small_defs)
  have n: "(0 :: int) \<le> 1" "(0 :: int) \<le> 2"
    by simp_all
  have f: "tf_record_file small_fs ''eval-0'' =
      [Record (Serialized (labeled_patch 2 1 [1, 0] 4 1))]"
    by (simp add: small_fs_def)
  have d: "TFRecordDataset small_fs (get_matching_files small_fs (eval_input_patches default_flags))
      = [Record (Serialized (labeled_patch 2 1 [1, 0] 4 1))]"
    by (simp add: TFRecordDataset_def small_fs_def default_flags_def)
  have a: "augment (\<lambda>p _ _. p) default_flags [[1, 0]] (constant_rng (3 / 4))
      = ([[1, 0]], \<lparr>source = (\<lambda>_. 3 / 4), draws_made = 2\<rparr>)"
    by (simp add: augment_def augment_shift_def augment_rotation_def random_uniform_def
        tf_cond_def small_defs to_float32_half to_float32_quarter Let_def one_minus_def)
  have m: "parser (\<lambda>label. real_of_int label + 1) (\<lambda>p _ _. p) default_flags (1, 2)
        (Serialized (labeled_patch 2 1 [1, 0] 4 1)) (constant_rng (3 / 4))
      = (Inr ([''patch'' \<mapsto> Float_matrix [[1, 0]], ''weight'' \<mapsto> Float_scalar 5], 4),
         \<lparr>source = (\<lambda>_. 3 / 4), draws_made = 2\<rparr>)"
    by (simp add: parser_def parse_single_example_def feature_types_def labeled_patch_def
        default_flags_def reshape_row a [unfolded default_flags_def])
  have p3: "labeled_patch 3 1 [1, 0, 1] 4 1 ''patch'' = Some (Float_list [1, 0, 1])"
    and l3: "int (length [1, 0, 1 :: real]) \<noteq> 1 * 2"
    by (simp_all add: labeled_patch_def)
  from input_fn_uses_training_dimensions [OF h n, of "\<lambda>label. real_of_int label + 1"
      "\<lambda>p _ _. p" "\<lambda>dataset. dataset" "''eval*''"] h n f d m p3 l3
  show ?thesis by simp
qed

end
